theory Spec2Isabelle
  imports Complex_Main "HOL-Library.Monad_Syntax"
begin

section \<open>JavaScript values used by the template manager\<close>

text \<open>
  Strings are lists of characters, one per UTF-16 code unit. \<open>toLowerCase\<close> is
  modelled on the ASCII letters and leaves every other character as it is. A JSON field that may be absent is an \<open>option\<close>;
  JavaScript's truthiness test \<open>!x\<close> is written out: a string is truthy when it is
  present and non-empty, an object or an array when it is present.
\<close>

definition truthy_str :: "string option \<Rightarrow> bool" where
  "truthy_str s = (case s of None \<Rightarrow> False | Some v \<Rightarrow> v \<noteq> [])"

definition truthy_obj :: "'a option \<Rightarrow> bool" where
  "truthy_obj x = (x \<noteq> None)"

definition upper_letters :: string where
  "upper_letters = ''ABCDEFGHIJKLMNOPQRSTUVWXYZ''"

definition lower_letters :: string where
  "lower_letters = ''abcdefghijklmnopqrstuvwxyz''"

definition lower_char :: "char \<Rightarrow> char" where
  "lower_char c = (case map_of (zip upper_letters lower_letters) c of
                     None \<Rightarrow> c | Some l \<Rightarrow> l)"

definition toLowerCase :: "string \<Rightarrow> string" where
  "toLowerCase s = map lower_char s"

definition startsWith :: "string \<Rightarrow> string \<Rightarrow> bool" where
  "startsWith s sub = (take (length sub) s = sub)"

text \<open>\<open>s.includes(sub)\<close>: \<open>sub\<close> occurs in \<open>s\<close> as a contiguous substring.\<close>

fun str_includes :: "string \<Rightarrow> string \<Rightarrow> bool" where
  "str_includes [] sub = (sub = [])"
| "str_includes (c # cs) sub = (startsWith (c # cs) sub \<or> str_includes cs sub)"

text \<open>\<open>xs.join(sep)\<close> on an array of strings.\<close>

fun join :: "string \<Rightarrow> string list \<Rightarrow> string" where
  "join sep [] = []"
| "join sep [x] = x"
| "join sep (x # y # ys) = x @ sep @ join sep (y # ys)"

text \<open>
  Exceptions are values. \<open>TypeError p\<close> is the engine's error for reading property (or
  calling method) \<open>p\<close> of \<open>undefined\<close>, \<open>NotAFunction f\<close> its error for calling \<open>f\<close> when
  \<open>f\<close> is \<open>undefined\<close>; \<open>ReadFailure m\<close> is the failure of \<open>fs.readJson\<close> or
  \<open>fs.readdir\<close> with message \<open>m\<close>.
\<close>

datatype error = TypeError string | NotAFunction string | ReadFailure string

fun message :: "error \<Rightarrow> string" where
  "message (TypeError p) = ''Cannot read properties of undefined (reading '' @ p @ '')''"
| "message (NotAFunction f) = f @ '' is not a function''"
| "message (ReadFailure m) = m"

section \<open>Template descriptors\<close>

record file_entry =
  path :: "string option"
  content :: "string option"

record style =
  language :: string
  framework :: string
  conventions :: "string list"

record rules =
  rules_context :: "string option"
  rules_style :: "style option"
  restrictions :: "string list option"
  preferences :: "string list option"

record template =
  name :: "string option"
  description :: "string option"
  version :: "string option"
  author :: "string option"
  tags :: "string list option"
  rules :: "rules option"
  files :: "file_entry list option"
  commands :: "(string \<rightharpoonup> string) option"

text \<open>\<open>template[field]\<close> is truthy, for the field names the scripts iterate over.\<close>

definition has_field :: "template \<Rightarrow> string \<Rightarrow> bool" where
  "has_field t field =
     (if field = ''name'' then truthy_str (name t)
      else if field = ''description'' then truthy_str (description t)
      else if field = ''version'' then truthy_str (version t)
      else if field = ''rules'' then truthy_obj (rules t)
      else if field = ''files'' then truthy_obj (files t)
      else False)"

subsection \<open>The pattern \<open>/^\d+\.\d+\.\d+$/\<close>\<close>

definition is_digit :: "char \<Rightarrow> bool" where
  "is_digit c = (c \<in> set ''0123456789'')"

text \<open>
  \<open>digits1\<close> consumes \<open>\d+\<close> and \<open>dot\<close> consumes \<open>\.\<close>, each returning the rest of the
  input, or \<open>None\<close> when the input does not start that way. What follows \<open>\d+\<close> in the
  pattern is never a digit, so the greedy match is the only one.
\<close>

definition digits1 :: "string \<Rightarrow> string option" where
  "digits1 s = (if takeWhile is_digit s = [] then None else Some (dropWhile is_digit s))"

definition dot :: "string \<Rightarrow> string option" where
  "dot s = (case s of [] \<Rightarrow> None | c # cs \<Rightarrow> if c = CHR ''.'' then Some cs else None)"

definition semver_test :: "string \<Rightarrow> bool" where
  "semver_test v = (digits1 v \<bind> dot \<bind> digits1 \<bind> dot \<bind> digits1 = Some [])"

section \<open>Quality metrics (scripts/quality-metrics.js)\<close>

record analysis =
  score :: int
  maxScore :: int
  issues :: "string list"
  recommendations :: "string list"

definition requiredFields :: "string list" where
  "requiredFields = [''name'', ''description'', ''version'', ''rules'', ''files'']"

definition missingFields :: "template \<Rightarrow> string list" where
  "missingFields t = filter (\<lambda>field. \<not> has_field t field) requiredFields"

definition is_cursorrules :: "file_entry \<Rightarrow> bool" where
  "is_cursorrules f = (path f = Some ''.cursorrules'')"

text \<open>
  The analysers start from \<open>{ score: 0, maxScore, issues: [], recommendations: [] }\<close> and
  mutate it block by block; here each block takes the record and returns it updated.
\<close>

definition new_analysis :: "int \<Rightarrow> analysis" where
  "new_analysis mx = \<lparr> score = 0, maxScore = mx, issues = [], recommendations = [] \<rparr>"

definition add_score :: "int \<Rightarrow> analysis \<Rightarrow> analysis" where
  "add_score n a = a\<lparr> score := score a + n \<rparr>"

definition push_issue :: "string \<Rightarrow> analysis \<Rightarrow> analysis" where
  "push_issue s a = a\<lparr> issues := issues a @ [s] \<rparr>"

definition push_recommendation :: "string \<Rightarrow> analysis \<Rightarrow> analysis" where
  "push_recommendation s a = a\<lparr> recommendations := recommendations a @ [s] \<rparr>"

subsection \<open>analyzeCompleteness\<close>

definition completeness_fields :: "template \<Rightarrow> analysis \<Rightarrow> analysis" where
  "completeness_fields t a =
     (if length (missingFields t) = 0 then add_score 15 a
      else push_issue (''Missing required fields: '' @ join '', '' (missingFields t))
             (add_score (max 0 (15 - int (length (missingFields t)) * 3)) a))"

definition completeness_files :: "template \<Rightarrow> analysis \<Rightarrow> analysis" where
  "completeness_files t a =
     (if truthy_obj (files t) \<and> length (the (files t)) > 0 then
        (if list_ex is_cursorrules (the (files t)) then add_score 10 a
         else push_issue ''Missing .cursorrules file'' (add_score 5 a))
      else push_issue ''No template files defined'' a)"

definition only_if :: "bool \<Rightarrow> ('a \<Rightarrow> 'a) \<Rightarrow> 'a \<Rightarrow> 'a" where
  "only_if b f a = (if b then f a else a)"

definition completeness_commands :: "template \<Rightarrow> analysis \<Rightarrow> analysis" where
  "completeness_commands t a =
     (case commands t of
        None \<Rightarrow> push_issue ''No commands defined'' a
      | Some cmds \<Rightarrow>
          (let hasInstall = truthy_str (cmds ''install'');
               hasDev = truthy_str (cmds ''dev'');
               a1 = (if hasInstall \<and> hasDev then add_score 5 a
                     else if hasInstall \<or> hasDev then add_score 3 a
                     else a);
               a2 = only_if (\<not> hasInstall) (push_recommendation ''Add install command'') a1
           in only_if (\<not> hasDev) (push_recommendation ''Add dev command'') a2))"

definition analyzeCompleteness :: "template \<Rightarrow> analysis" where
  "analyzeCompleteness t =
     completeness_commands t (completeness_files t (completeness_fields t (new_analysis 30)))"

subsection \<open>analyzeDocumentation\<close>

definition documentation_description :: "template \<Rightarrow> analysis \<Rightarrow> analysis" where
  "documentation_description t a =
     (if truthy_str (description t) then
        (let d = the (description t) in
         if length d > 50 then add_score 10 a
         else if length d > 20 then add_score 7 a
         else push_recommendation ''Expand template description'' (add_score 4 a))
      else push_issue ''Missing description'' a)"

text \<open>\<open>template.files?.find(f => f.path === '.cursorrules')\<close>\<close>

definition cursorRulesFile :: "template \<Rightarrow> file_entry option" where
  "cursorRulesFile t = (case files t of None \<Rightarrow> None | Some fs \<Rightarrow> find is_cursorrules fs)"

definition documentation_sections :: "string \<Rightarrow> analysis \<Rightarrow> analysis" where
  "documentation_sections c a =
     (let hasContext = (str_includes c ''context'' \<or> str_includes c ''You are'');
          hasExamples = (str_includes c ''```'' \<or> str_includes c ''Example'');
          hasBestPractices = (str_includes c ''Best Practices'' \<or> str_includes c ''## '');
          a1 = only_if (\<not> hasContext)
                 (push_recommendation ''Add context section to .cursorrules'') a;
          a2 = only_if (\<not> hasExamples)
                 (push_recommendation ''Add code examples to .cursorrules'') a1
      in only_if (\<not> hasBestPractices)
           (push_recommendation ''Add best practices section to .cursorrules'') a2)"

text \<open>
  The entry found may lack \<open>content\<close>; \<open>content.length\<close> then throws, which is the
  \<open>Inl\<close> result.
\<close>

definition documentation_cursorrules :: "template \<Rightarrow> analysis \<Rightarrow> error + analysis" where
  "documentation_cursorrules t a =
     (case cursorRulesFile t of
        None \<Rightarrow> Inr a
      | Some f \<Rightarrow>
          (case content f of
             None \<Rightarrow> Inl (TypeError ''length'')
           | Some c \<Rightarrow>
               Inr (documentation_sections c
                 (if length c > 500 then add_score 15 a
                  else if length c > 200 then
                    push_recommendation ''Expand .cursorrules with more guidance'' (add_score 10 a)
                  else push_issue ''.cursorrules content is too brief'' (add_score 5 a)))))"

definition analyzeDocumentation :: "template \<Rightarrow> error + analysis" where
  "analyzeDocumentation t =
     documentation_cursorrules t (documentation_description t (new_analysis 25))"

subsection \<open>analyzeBestPractices\<close>

definition bestPractices_version :: "template \<Rightarrow> analysis \<Rightarrow> analysis" where
  "bestPractices_version t a =
     (if truthy_str (version t) \<and> semver_test (the (version t)) then add_score 5 a
      else push_issue ''Invalid or missing semantic version'' a)"

definition bestPractices_tags :: "template \<Rightarrow> analysis \<Rightarrow> analysis" where
  "bestPractices_tags t a =
     (if truthy_obj (tags t) \<and> length (the (tags t)) > 0 then
        only_if (length (the (tags t)) < 3)
          (push_recommendation ''Add more descriptive tags'') (add_score 5 a)
      else push_issue ''No tags specified'' a)"

text \<open>
  \<open>rulesScore\<close> starts at 0 and is added to the score after the four checks; the pair
  carries it along with the record. One check: \<open>if (ok) rulesScore += pts else otherwise\<close>.
\<close>

definition rules_check ::
  "bool \<Rightarrow> int \<Rightarrow> (analysis \<Rightarrow> analysis) \<Rightarrow> int \<times> analysis \<Rightarrow> int \<times> analysis" where
  "rules_check ok pts otherwise sa =
     (if ok then (fst sa + pts, snd sa) else (fst sa, otherwise (snd sa)))"

definition bestPractices_rules :: "template \<Rightarrow> analysis \<Rightarrow> analysis" where
  "bestPractices_rules t a =
     (case rules t of
        None \<Rightarrow> push_issue ''Missing rules object'' a
      | Some r \<Rightarrow>
          (let sa1 = rules_check (truthy_str (rules_context r)) 4
                       (push_issue ''Missing rules context'') (0, a);
               sa2 = rules_check (truthy_obj (rules_style r)) 4
                       (push_issue ''Missing rules style'') sa1;
               sa3 = rules_check
                       (truthy_obj (restrictions r) \<and> length (the (restrictions r)) > 0) 3
                       (push_recommendation ''Add restrictions to rules'') sa2;
               sa4 = rules_check
                       (truthy_obj (preferences r) \<and> length (the (preferences r)) > 0) 4
                       (push_recommendation ''Add preferences to rules'') sa3
           in add_score (fst sa4) (snd sa4)))"

definition analyzeBestPractices :: "template \<Rightarrow> analysis" where
  "analyzeBestPractices t =
     bestPractices_rules t (bestPractices_tags t (bestPractices_version t (new_analysis 25)))"

subsection \<open>analyzeUsability\<close>

text \<open>The pattern \<open>/^[a-z0-9-]+$/\<close>.\<close>

definition kebab_test :: "string \<Rightarrow> bool" where
  "kebab_test n = (n \<noteq> [] \<and> list_all (\<lambda>c. c \<in> set (lower_letters @ ''0123456789-'')) n)"

definition usability_name :: "template \<Rightarrow> analysis \<Rightarrow> analysis" where
  "usability_name t a =
     (if truthy_str (name t) then
        (if kebab_test (the (name t)) then add_score 5 a
         else push_recommendation ''Use kebab-case for template name'' (add_score 3 a))
      else a)"

definition usability_author :: "template \<Rightarrow> analysis \<Rightarrow> analysis" where
  "usability_author t a =
     (if truthy_str (author t) then add_score 5 a
      else push_recommendation ''Add author information'' a)"

definition frameworks :: "string list" where
  "frameworks = [''react'', ''vue'', ''angular'', ''svelte'', ''nextjs'', ''nuxt'',
                 ''flutter'', ''django'', ''express'']"

text \<open>
  \<open>frameworks.some(fw => tags.some(tag => tag.toLowerCase().includes(fw)) ||
  template.name.toLowerCase().includes(fw))\<close>: the name is only looked at when no tag
  matches, and \<open>template.name.toLowerCase()\<close> throws when the name is absent.
\<close>

fun hasFramework :: "string list \<Rightarrow> string option \<Rightarrow> string list \<Rightarrow> error + bool" where
  "hasFramework tgs nm [] = Inr False"
| "hasFramework tgs nm (fw # fws) =
     (if list_ex (\<lambda>tag. str_includes (toLowerCase tag) fw) tgs then Inr True
      else (case nm of
              None \<Rightarrow> Inl (TypeError ''toLowerCase'')
            | Some n \<Rightarrow>
                if str_includes (toLowerCase n) fw then Inr True
                else hasFramework tgs nm fws))"

definition usability_framework :: "template \<Rightarrow> analysis \<Rightarrow> error + analysis" where
  "usability_framework t a =
     (if truthy_obj (tags t) \<and> truthy_obj (rules t) then
        (case hasFramework (the (tags t)) (name t) frameworks of
           Inl e \<Rightarrow> Inl e
         | Inr found \<Rightarrow>
             Inr (if found then add_score 10 a
                  else push_recommendation ''Specify target framework in tags'' (add_score 5 a)))
      else Inr a)"

definition analyzeUsability :: "template \<Rightarrow> error + analysis" where
  "analyzeUsability t =
     usability_framework t (usability_author t (usability_name t (new_analysis 20)))"

subsection \<open>calculateGrade and analyzeTemplate\<close>

definition calculateGrade :: "int \<Rightarrow> string" where
  "calculateGrade s =
     (if s \<ge> 90 then ''A+''
      else if s \<ge> 85 then ''A''
      else if s \<ge> 80 then ''A-''
      else if s \<ge> 75 then ''B+''
      else if s \<ge> 70 then ''B''
      else if s \<ge> 65 then ''B-''
      else if s \<ge> 60 then ''C+''
      else if s \<ge> 55 then ''C''
      else if s \<ge> 50 then ''C-''
      else if s \<ge> 40 then ''D''
      else ''F'')"

text \<open>
  The object \<open>analyzeTemplate\<close> returns has two shapes: the full one, and the one of the
  \<open>catch\<close> branch, which has \<open>error\<close> and neither \<open>issues\<close>, \<open>recommendations\<close> nor
  \<open>analysis\<close>. A field a shape lacks is \<open>None\<close>.
\<close>

record breakdown =
  completeness :: analysis
  documentation :: analysis
  bestPractices :: analysis
  usability :: analysis

record metrics =
  m_name :: string
  m_score :: int
  m_grade :: string
  m_issues :: "string list option"
  m_recommendations :: "string list option"
  m_analysis :: "breakdown option"
  m_error :: "string option"
  m_timestamp :: string

definition error_metrics :: "string \<Rightarrow> string \<Rightarrow> error \<Rightarrow> metrics" where
  "error_metrics now templateName e =
     \<lparr> m_name = templateName, m_score = 0, m_grade = ''F'', m_issues = None,
       m_recommendations = None, m_analysis = None, m_error = Some (message e),
       m_timestamp = now \<rparr>"

definition full_metrics :: "string \<Rightarrow> string \<Rightarrow> breakdown \<Rightarrow> metrics" where
  "full_metrics now templateName b =
     (let parts = [completeness b, documentation b, bestPractices b, usability b];
          total = sum_list (map score parts)
      in \<lparr> m_name = templateName, m_score = total, m_grade = calculateGrade total,
           m_issues = Some (concat (map issues parts)),
           m_recommendations = Some (concat (map recommendations parts)),
           m_analysis = Some b, m_error = None, m_timestamp = now \<rparr>)"

text \<open>
  \<open>readJson\<close> is the first statement of the \<open>try\<close> block: its outcome is the argument,
  \<open>Inl\<close> when the descriptor could not be read or parsed. \<open>now\<close> is the clock reading.
\<close>

definition analyzeTemplate :: "string \<Rightarrow> string \<Rightarrow> error + template \<Rightarrow> metrics" where
  "analyzeTemplate now templateName readJson =
     (case readJson of
        Inl e \<Rightarrow> error_metrics now templateName e
      | Inr t \<Rightarrow>
          (case analyzeDocumentation t of
             Inl e \<Rightarrow> error_metrics now templateName e
           | Inr d \<Rightarrow>
               (case analyzeUsability t of
                  Inl e \<Rightarrow> error_metrics now templateName e
                | Inr u \<Rightarrow>
                    full_metrics now templateName
                      \<lparr> completeness = analyzeCompleteness t, documentation = d,
                        bestPractices = analyzeBestPractices t, usability = u \<rparr>)))"

section \<open>The validator (validateTemplate)\<close>

text \<open>
  The entries of \<open>errors\<close>, by the template literal that builds them:
  \<open>MissingRequiredField f\<close> is \<open>Missing required field: f\<close>, \<open>InvalidVersionFormat\<close> is
  \<open>Invalid version format. Use semantic versioning (x.y.z)\<close>, \<open>InvalidFileEntry e\<close> is
  \<open>Invalid file entry: \<close> followed by \<open>JSON.stringify(e)\<close>, and \<open>FailedToParse m\<close> is
  \<open>Failed to parse template: m\<close>. Warnings are the literal strings.
\<close>

datatype validation_error =
    MissingRequiredField string
  | InvalidVersionFormat
  | InvalidFileEntry file_entry
  | FailedToParse string

record validation =
  errors :: "validation_error list"
  warnings :: "string list"
  v_template :: "template option"

definition push_error :: "validation_error \<Rightarrow> validation \<Rightarrow> validation" where
  "push_error e v = v\<lparr> errors := errors v @ [e] \<rparr>"

definition push_warning :: "string \<Rightarrow> validation \<Rightarrow> validation" where
  "push_warning w v = v\<lparr> warnings := warnings v @ [w] \<rparr>"

text \<open>\<open>for (const field of required) if (!template[field]) errors.push(...)\<close>\<close>

fun validate_required :: "template \<Rightarrow> string list \<Rightarrow> validation \<Rightarrow> validation" where
  "validate_required t [] v = v"
| "validate_required t (field # others) v =
     validate_required t others
       (only_if (\<not> has_field t field) (push_error (MissingRequiredField field)) v)"

definition validate_version :: "template \<Rightarrow> validation \<Rightarrow> validation" where
  "validate_version t v =
     only_if (truthy_str (version t) \<and> \<not> semver_test (the (version t)))
       (push_error InvalidVersionFormat) v"

definition validate_rules :: "template \<Rightarrow> validation \<Rightarrow> validation" where
  "validate_rules t v =
     (case rules t of
        None \<Rightarrow> v
      | Some r \<Rightarrow>
          (let v1 = only_if (\<not> truthy_str (rules_context r))
                      (push_warning ''Missing rules.context'') v;
               v2 = only_if (\<not> truthy_obj (rules_style r))
                      (push_warning ''Missing rules.style'') v1;
               v3 = only_if (\<not> truthy_obj (restrictions r))
                      (push_warning ''Missing rules.restrictions'') v2
           in only_if (\<not> truthy_obj (preferences r))
                (push_warning ''Missing rules.preferences'') v3))"

definition validate_tags :: "template \<Rightarrow> validation \<Rightarrow> validation" where
  "validate_tags t v =
     only_if (\<not> truthy_obj (tags t) \<or> length (the (tags t)) = 0)
       (push_warning ''No tags specified'') v"

text \<open>
  The loop over \<open>template.files\<close>. The second test of its body reads
  \<open>file.content.length\<close> whenever the path is \<open>.cursorrules\<close>; on an entry without
  \<open>content\<close> that read throws and the loop is left for the \<open>catch\<close> of the function.
\<close>

fun validate_file_entries :: "file_entry list \<Rightarrow> validation \<Rightarrow> error + validation" where
  "validate_file_entries [] v = Inr v"
| "validate_file_entries (file # rest) v =
     (let v1 = only_if (\<not> truthy_str (path file) \<or> \<not> truthy_str (content file))
                 (push_error (InvalidFileEntry file)) v
      in if path file = Some ''.cursorrules'' then
           (case content file of
              None \<Rightarrow> Inl (TypeError ''length'')
            | Some c \<Rightarrow>
                validate_file_entries rest
                  (only_if (length c < 100)
                     (push_warning ''.cursorrules file seems too short'') v1))
         else validate_file_entries rest v1)"

definition validate_files :: "template \<Rightarrow> validation \<Rightarrow> error + validation" where
  "validate_files t v =
     (case files t of
        None \<Rightarrow> Inr (push_warning ''No files specified'' v)
      | Some fs \<Rightarrow> validate_file_entries fs v)"

definition validate_commands :: "template \<Rightarrow> validation \<Rightarrow> validation" where
  "validate_commands t v =
     (case commands t of
        None \<Rightarrow> push_warning ''No commands specified'' v
      | Some cmds \<Rightarrow>
          only_if (\<not> truthy_str (cmds ''dev'')) (push_warning ''No dev command specified'')
            (only_if (\<not> truthy_str (cmds ''install''))
               (push_warning ''No install command specified'') v))"

definition failed_to_parse :: "error \<Rightarrow> validation" where
  "failed_to_parse e =
     \<lparr> errors = [FailedToParse (message e)], warnings = [], v_template = None \<rparr>"

text \<open>\<open>readJson\<close> is the outcome of \<open>fs.readJson(templatePath)\<close>, the first statement of the \<open>try\<close>.\<close>

definition validateTemplate :: "error + template \<Rightarrow> validation" where
  "validateTemplate readJson =
     (case readJson of
        Inl e \<Rightarrow> failed_to_parse e
      | Inr t \<Rightarrow>
          (case validate_files t
                  (validate_tags t (validate_rules t (validate_version t
                     (validate_required t [''name'', ''description'', ''version'', ''rules'']
                        \<lparr> errors = [], warnings = [], v_template = Some t \<rparr>)))) of
             Inl e \<Rightarrow> failed_to_parse e
           | Inr v \<Rightarrow> validate_commands t v))"

section \<open>The template store (getTemplates)\<close>

text \<open>
  What \<open>getTemplates\<close> sees of the disk: the entries \<open>fs.readdir\<close> lists under the
  templates directory, in its order, each with the state of its \<open>template.json\<close>; or the
  error of \<open>readdir\<close> itself. An entry that is a plain file has no descriptor below it.
\<close>

datatype descriptor = NoDescriptor | Unparsable string | Parsed template

type_synonym templates_dir = "error + (string \<times> descriptor) list"

definition pathExists :: "descriptor \<Rightarrow> bool" where
  "pathExists d = (d \<noteq> NoDescriptor)"

fun readJson :: "descriptor \<Rightarrow> error + template" where
  "readJson NoDescriptor = Inl (ReadFailure ''ENOENT: no such file or directory'')"
| "readJson (Unparsable m) = Inl (ReadFailure m)"
| "readJson (Parsed t) = Inr t"

text \<open>
  The loop of \<open>getTemplates\<close>, with the array \<open>templates\<close> and the lines written by
  \<open>console.warn\<close> as accumulators.
\<close>

definition could_not_load :: "string \<Rightarrow> string" where
  "could_not_load dir = ''Warning: Could not load template from '' @ dir"

fun load_templates ::
  "(string \<times> descriptor) list \<Rightarrow> template list \<times> string list \<Rightarrow> template list \<times> string list" where
  "load_templates [] acc = acc"
| "load_templates ((dir, d) # rest) (templates, warned) =
     (if pathExists d then
        (case readJson d of
           Inr t \<Rightarrow> load_templates rest (templates @ [t], warned)
         | Inl e \<Rightarrow>
             load_templates rest (templates, warned @ [could_not_load dir]))
      else load_templates rest (templates, warned))"

definition getTemplates :: "templates_dir \<Rightarrow> error + (template list \<times> string list)" where
  "getTemplates store =
     (case store of Inl e \<Rightarrow> Inl e | Inr templateDirs \<Rightarrow> Inr (load_templates templateDirs ([], [])))"

section \<open>Ratings (getRatings, addRating, the rate command)\<close>

text \<open>
  A JavaScript number is a rational or \<open>NaN\<close>. The arithmetic is exact: the rounding of
  IEEE doubles is not modelled, and every divisor in this program is a positive number, so
  no infinity arises. \<open>Math.round\<close> rounds half up. A comparison with \<open>NaN\<close> is false.
\<close>

datatype jsnum = Num rat | NaN

fun js_op :: "(rat \<Rightarrow> rat \<Rightarrow> rat) \<Rightarrow> jsnum \<Rightarrow> jsnum \<Rightarrow> jsnum" where
  "js_op f (Num a) (Num b) = Num (f a b)"
| "js_op f _ _ = NaN"

definition js_add :: "jsnum \<Rightarrow> jsnum \<Rightarrow> jsnum" where "js_add = js_op (+)"
definition js_mul :: "jsnum \<Rightarrow> jsnum \<Rightarrow> jsnum" where "js_mul = js_op (*)"
definition js_div :: "jsnum \<Rightarrow> jsnum \<Rightarrow> jsnum" where "js_div = js_op (/)"

fun Math_round :: "jsnum \<Rightarrow> jsnum" where
  "Math_round (Num a) = Num (of_int \<lfloor>a + 1 / 2\<rfloor>)"
| "Math_round NaN = NaN"

fun js_less :: "jsnum \<Rightarrow> jsnum \<Rightarrow> bool" where
  "js_less (Num a) (Num b) = (a < b)"
| "js_less _ _ = False"

text \<open>
  In the ratings document a number is written by \<open>JSON.stringify\<close>, which writes \<open>NaN\<close> as
  \<open>null\<close>; read back, \<open>null\<close> counts as 0 in a product.
\<close>

datatype json_number = JNum rat | JNull

fun toJSON :: "jsnum \<Rightarrow> json_number" where
  "toJSON (Num a) = JNum a"
| "toJSON NaN = JNull"

fun toNumber :: "json_number \<Rightarrow> jsnum" where
  "toNumber (JNum a) = Num a"
| "toNumber JNull = Num 0"

record review =
  user :: string
  review_rating :: json_number
  comment :: string
  date :: string

record rating_record =
  rating :: json_number
  votes :: nat
  reviews :: "review list"

record ratings_doc =
  templates :: "string \<rightharpoonup> rating_record"
  featured :: "string list"
  trending :: "string list"

text \<open>The file \<open>community/ratings.json\<close>: missing, unreadable, or holding a document.\<close>

datatype ratings_file = Missing | Unreadable | Stored ratings_doc

definition default_ratings :: ratings_doc where
  "default_ratings = \<lparr> templates = Map.empty, featured = [], trending = [] \<rparr>"

fun getRatings :: "ratings_file \<Rightarrow> ratings_doc" where
  "getRatings (Stored doc) = doc"
| "getRatings Unreadable = default_ratings"
| "getRatings Missing = default_ratings"

definition new_record :: rating_record where
  "new_record = \<lparr> rating = JNum 0, votes = 0, reviews = [] \<rparr>"

text \<open>
  \<open>addRating\<close> reads the document, updates one record and writes the whole document
  back; the result is the file afterwards (the directory is taken to be writable).
  \<open>now\<close> is the clock reading.
\<close>

definition rate_record :: "string \<Rightarrow> jsnum \<Rightarrow> string option \<Rightarrow> rating_record \<Rightarrow> rating_record" where
  "rate_record now r cmt template =
     (let newTotal = js_add (js_mul (toNumber (rating template)) (Num (of_nat (votes template)))) r;
          votes' = votes template + 1;
          rating' = js_div (Math_round (js_mul (js_div newTotal (Num (of_nat votes'))) (Num 10)))
                      (Num 10)
      in \<lparr> rating = toJSON rating', votes = votes',
           reviews = (if truthy_str cmt
                      then reviews template @
                             [\<lparr> user = ''anonymous'', review_rating = toJSON r,
                                comment = the cmt, date = now \<rparr>]
                      else reviews template) \<rparr>)"

definition addRating ::
  "string \<Rightarrow> ratings_file \<Rightarrow> string \<Rightarrow> jsnum \<Rightarrow> string option \<Rightarrow> ratings_file" where
  "addRating now file templateName r cmt =
     (let ratings = getRatings file;
          template = (case templates ratings templateName of
                        None \<Rightarrow> new_record | Some existing \<Rightarrow> existing)
      in Stored (ratings\<lparr> templates :=
                   (templates ratings)(templateName \<mapsto> rate_record now r cmt template) \<rparr>))"

text \<open>
  The action of \<open>rate <template> <rating>\<close>. \<open>ratingNum\<close> is the value of
  \<open>parseInt(rating)\<close>: an integer, or \<open>NaN\<close> when the argument does not start with one.
\<close>

datatype rate_outcome = RatingRejected | TemplateNotFound | Rated | RateFailed error

definition rate ::
  "string \<Rightarrow> templates_dir \<Rightarrow> ratings_file \<Rightarrow> string \<Rightarrow> jsnum \<Rightarrow> string option
     \<Rightarrow> rate_outcome \<times> ratings_file" where
  "rate now store file templateName ratingNum cmt =
     (if js_less ratingNum (Num 1) \<or> js_less (Num 5) ratingNum then (RatingRejected, file)
      else (case getTemplates store of
              Inl e \<Rightarrow> (RateFailed e, file)
            | Inr (loaded, warned) \<Rightarrow>
                (case find (\<lambda>t. name t = Some templateName) loaded of
                   None \<Rightarrow> (TemplateNotFound, file)
                 | Some t \<Rightarrow> (Rated, addRating now file templateName ratingNum cmt))))"





section \<open>Search\<close>

subsection \<open>filterByCategory and the search command\<close>






subsection \<open>TemplateDiscovery.searchTemplates\<close>

text \<open>
  The registry document, as far as the search reads it; \<open>loadRegistry\<close> takes the file
  \<open>registry.json\<close> when there is one and the built-in default otherwise.
\<close>

record registry =
  categories :: "(string \<times> string list) list"
  registry_featured :: "string list"
  registry_trending :: "string list"

definition default_registry :: registry where
  "default_registry =
     \<lparr> categories =
         [(''frontend'', [''react'', ''vue'', ''angular'', ''nextjs'', ''svelte'']),
          (''backend'', [''express'', ''fastapi'', ''django'', ''rails'', ''spring'']),
          (''fullstack'', [''nextjs'', ''t3-stack'', ''remix'', ''nuxt'']),
          (''mobile'', [''react-native'', ''flutter'', ''ionic'']),
          (''desktop'', [''electron'', ''tauri'']),
          (''testing'', [''jest'', ''pytest'', ''cypress'', ''playwright'']),
          (''devops'', [''docker'', ''kubernetes'', ''terraform'', ''ansible''])],
       registry_featured = [], registry_trending = [] \<rparr>"

definition loadRegistry :: "registry option \<Rightarrow> registry" where
  "loadRegistry file = (case file of None \<Rightarrow> default_registry | Some r \<Rightarrow> r)"




section \<open>The update command\<close>




text \<open>
  The loop over \<open>currentTemplate.files\<close>: back up the target when it exists, then write
  it. \<open>stamp i\<close> is \<open>Date.now()\<close> as read in round \<open>i\<close>. \<open>path.resolve\<close> throws on an
  entry without \<open>path\<close> and \<open>fs.writeFile\<close> on one without \<open>content\<close>; what was
  written before stays on the disk.
\<close>

fun write_files ::
  "(nat \<Rightarrow> string) \<Rightarrow> nat \<Rightarrow> file_entry list \<Rightarrow> (string \<rightharpoonup> string)
     \<Rightarrow> error option \<times> (string \<rightharpoonup> string)" where
  "write_files stamp i [] d = (None, d)"
| "write_files stamp i (file # rest) d =
     (case path file of
        None \<Rightarrow> (Some (TypeError ''path''), d)
      | Some filePath \<Rightarrow>
          (let d1 = (case d filePath of
                       None \<Rightarrow> d
                     | Some old \<Rightarrow> d(filePath @ ''.backup.'' @ stamp i \<mapsto> old))
           in case content file of
                None \<Rightarrow> (Some (TypeError ''data''), d1)
              | Some c \<Rightarrow> write_files stamp (Suc i) rest (d1(filePath \<mapsto> c))))"







section \<open>Analysing the whole store (analyzeAllTemplates)\<close>

text \<open>
  \<open>getGradeColor\<close> picks a chalk style by the first letter of the grade; for \<open>D\<close> it is
  \<open>chalk.orange\<close>. Chalk is not part of the repository: \<open>orange\<close> says whether the
  installed chalk defines that style. The result is whether the style picked is defined.
\<close>

definition getGradeColor :: "bool \<Rightarrow> string \<Rightarrow> bool" where
  "getGradeColor orange g =
     (if startsWith g ''A'' then True
      else if startsWith g ''B'' then True
      else if startsWith g ''C'' then True
      else if startsWith g ''D'' then orange
      else True)"

text \<open>
  The loop of \<open>analyzeAllTemplates\<close>, with \<open>results\<close> as accumulator. After pushing the
  metrics it calls the style on the grade and reads \<open>metrics.issues.length\<close> and
  \<open>metrics.recommendations.length\<close>; nothing in the function catches what these throw.
\<close>

fun analyze_dirs ::
  "bool \<Rightarrow> string \<Rightarrow> (string \<times> descriptor) list \<Rightarrow> metrics list \<Rightarrow> error + metrics list" where
  "analyze_dirs orange now [] results = Inr results"
| "analyze_dirs orange now ((dir, d) # rest) results =
     (if pathExists d then
        (let m = analyzeTemplate now dir (readJson d) in
         if \<not> getGradeColor orange (m_grade m) then Inl (NotAFunction ''gradeColor'')
         else (case m_issues m of
                 None \<Rightarrow> Inl (TypeError ''length'')
               | Some found \<Rightarrow>
                   (case m_recommendations m of
                      None \<Rightarrow> Inl (TypeError ''length'')
                    | Some recs \<Rightarrow> analyze_dirs orange now rest (results @ [m]))))
      else analyze_dirs orange now rest results)"

definition analyzeAllTemplates :: "bool \<Rightarrow> string \<Rightarrow> templates_dir \<Rightarrow> error + metrics list" where
  "analyzeAllTemplates orange now store =
     (case store of Inl e \<Rightarrow> Inl e | Inr templateDirs \<Rightarrow> analyze_dirs orange now templateDirs [])"

text \<open>The grades from the lowest to the highest; the rank of a grade is its place.\<close>

definition grades :: "string list" where
  "grades = [''F'', ''D'', ''C-'', ''C'', ''C+'', ''B-'', ''B'', ''B+'', ''A-'', ''A'', ''A+'']"

definition grade_rank :: "string \<Rightarrow> nat" where
  "grade_rank g = length (takeWhile (\<lambda>x. x \<noteq> g) grades)"

section \<open>Example descriptors\<close>

definition react_typescript_vite :: template where
  "react_typescript_vite =
     \<lparr> name = Some ''react-typescript-vite'',
       description = Some ''React with TypeScript and Vite'',
       version = Some ''1.0.0'',
       author = Some ''cursor-templates'',
       tags = Some [''react'', ''typescript'', ''vite''],
       rules = Some \<lparr> rules_context = Some ''You are an expert React developer'',
                      rules_style = Some \<lparr> language = ''typescript'', framework = ''react'',
                                           conventions = [] \<rparr>,
                      restrictions = Some [''No class components''],
                      preferences = Some [''Functional components''] \<rparr>,
       files = Some [\<lparr> path = Some ''.cursorrules'',
                       content = Some ''You are an expert React developer.'' \<rparr>,
                     \<lparr> path = Some ''src/main.tsx'', content = Some ''export {}'' \<rparr>],
       commands = Some [''install'' \<mapsto> ''npm install'', ''dev'' \<mapsto> ''npm run dev''] \<rparr>"


text \<open>A descriptor with the required fields and nothing else.\<close>

definition bare_template :: template where
  "bare_template =
     \<lparr> name = Some ''bare'', description = Some ''A bare template'', version = Some ''1.0.0'',
       author = None, tags = None, rules = Some \<lparr> rules_context = None, rules_style = None,
       restrictions = None, preferences = None \<rparr>, files = None, commands = None \<rparr>"

text \<open>
  Two descriptors whose \<open>.cursorrules\<close> entry has no \<open>content\<close>. The first also has a
  version that is not a triple; the second has, besides, an entry without \<open>path\<close>.
\<close>

definition short_version_template :: template where
  "short_version_template =
     bare_template
       \<lparr> version := Some ''1.0'',
         files := Some [\<lparr> path = Some ''.cursorrules'', content = None \<rparr>] \<rparr>"

definition cursorrules_without_content :: template where
  "cursorrules_without_content =
     bare_template
       \<lparr> description := None,
         files := Some [\<lparr> path = None, content = Some ''export {}'' \<rparr>,
                       \<lparr> path = Some ''.cursorrules'', content = None \<rparr>] \<rparr>"

section \<open>The search contract in the spec's words\<close>













section \<open>Verified properties\<close>

subsection \<open>Scores of the four dimensions\<close>

lemma score_simps [simp]:
  "score (add_score n a) = score a + n"
  "score (push_issue s a) = score a"
  "score (push_recommendation s a) = score a"
  "score (only_if b (push_recommendation s) a) = score a"
  "score (new_analysis mx) = 0"
  by (simp_all add: add_score_def push_issue_def push_recommendation_def only_if_def
      new_analysis_def)

lemma completeness_score_bounds:
  "0 \<le> score (analyzeCompleteness t) \<and> score (analyzeCompleteness t) \<le> 30"
  by (simp add: analyzeCompleteness_def completeness_commands_def completeness_files_def
      completeness_fields_def Let_def split: option.split)

lemma sections_score [simp]: "score (documentation_sections c a) = score a"
  by (simp add: documentation_sections_def Let_def)

lemma documentation_score_bounds:
  "analyzeDocumentation t = Inr d \<Longrightarrow> 0 \<le> score d \<and> score d \<le> 25"
  by (auto simp: analyzeDocumentation_def documentation_cursorrules_def
      documentation_description_def Let_def split: option.splits if_splits)

lemma rules_check_bounds:
  assumes "score (otherwise (snd sa)) = score (snd sa)" and "0 \<le> pts"
  shows "score (snd (rules_check ok pts otherwise sa)) = score (snd sa)
       \<and> fst sa \<le> fst (rules_check ok pts otherwise sa)
       \<and> fst (rules_check ok pts otherwise sa) \<le> fst sa + pts"
  using assms by (simp add: rules_check_def)

lemma bestPractices_rules_bounds:
  "score a \<le> score (bestPractices_rules t a) \<and> score (bestPractices_rules t a) \<le> score a + 15"
proof (cases "rules t")
  case None
  then show ?thesis by (simp add: bestPractices_rules_def)
next
  case (Some r)
  define sa1 where "sa1 = rules_check (truthy_str (rules_context r)) 4
                       (push_issue ''Missing rules context'') (0, a)"
  define sa2 where "sa2 = rules_check (truthy_obj (rules_style r)) 4
                       (push_issue ''Missing rules style'') sa1"
  define sa3 where "sa3 = rules_check
                       (truthy_obj (restrictions r) \<and> length (the (restrictions r)) > 0) 3
                       (push_recommendation ''Add restrictions to rules'') sa2"
  define sa4 where "sa4 = rules_check
                       (truthy_obj (preferences r) \<and> length (the (preferences r)) > 0) 4
                       (push_recommendation ''Add preferences to rules'') sa3"
  have 1: "score (snd sa1) = score a \<and> 0 \<le> fst sa1 \<and> fst sa1 \<le> 4"
    using rules_check_bounds [of "push_issue ''Missing rules context''" "(0, a)" 4]
    by (simp add: sa1_def)
  have 2: "score (snd sa2) = score (snd sa1) \<and> fst sa1 \<le> fst sa2 \<and> fst sa2 \<le> fst sa1 + 4"
    using rules_check_bounds [of "push_issue ''Missing rules style''" sa1 4]
    by (simp add: sa2_def)
  have 3: "score (snd sa3) = score (snd sa2) \<and> fst sa2 \<le> fst sa3 \<and> fst sa3 \<le> fst sa2 + 3"
    using rules_check_bounds [of "push_recommendation ''Add restrictions to rules''" sa2 3]
    by (simp add: sa3_def)
  have 4: "score (snd sa4) = score (snd sa3) \<and> fst sa3 \<le> fst sa4 \<and> fst sa4 \<le> fst sa3 + 4"
    using rules_check_bounds [of "push_recommendation ''Add preferences to rules''" sa3 4]
    by (simp add: sa4_def)
  have "bestPractices_rules t a = add_score (fst sa4) (snd sa4)"
    by (simp add: bestPractices_rules_def Some Let_def sa1_def sa2_def sa3_def sa4_def)
  with 1 2 3 4 show ?thesis by simp
qed

lemma bestPractices_score_bounds:
  "0 \<le> score (analyzeBestPractices t) \<and> score (analyzeBestPractices t) \<le> 25"
proof -
  have v: "0 \<le> score (bestPractices_version t (new_analysis 25))
         \<and> score (bestPractices_version t (new_analysis 25)) \<le> 5"
    by (simp add: bestPractices_version_def)
  have g: "score a \<le> score (bestPractices_tags t a) \<and> score (bestPractices_tags t a) \<le> score a + 5"
    for a
    by (simp add: bestPractices_tags_def)
  show ?thesis
    unfolding analyzeBestPractices_def
    using v g [of "bestPractices_version t (new_analysis 25)"]
      bestPractices_rules_bounds
        [of "bestPractices_tags t (bestPractices_version t (new_analysis 25))" t]
    by linarith
qed

lemma usability_score_bounds:
  "analyzeUsability t = Inr u \<Longrightarrow> 0 \<le> score u \<and> score u \<le> 20"
  by (auto simp: analyzeUsability_def usability_framework_def usability_author_def
      usability_name_def split: sum.splits if_splits)

lemma full_metrics_score:
  "m_score (full_metrics now nm b)
     = score (completeness b) + score (documentation b) + score (bestPractices b)
       + score (usability b)"
  "m_grade (full_metrics now nm b) = calculateGrade (m_score (full_metrics now nm b))"
  by (simp_all add: full_metrics_def Let_def)

lemma error_metrics_score:
  "m_score (error_metrics now nm e) = 0"
  "m_grade (error_metrics now nm e) = ''F''"
  "m_issues (error_metrics now nm e) = None"
  "m_recommendations (error_metrics now nm e) = None"
  "m_error (error_metrics now nm e) = Some (message e)"
  by (simp_all add: error_metrics_def)

lemma analyzeTemplate_cases:
  "(\<exists>e. analyzeTemplate now nm rj = error_metrics now nm e) \<or>
   (\<exists>t d u. rj = Inr t \<and> analyzeDocumentation t = Inr d \<and> analyzeUsability t = Inr u \<and>
      analyzeTemplate now nm rj = full_metrics now nm
        \<lparr> completeness = analyzeCompleteness t, documentation = d,
          bestPractices = analyzeBestPractices t, usability = u \<rparr>)"
  by (auto simp: analyzeTemplate_def split: sum.splits)

lemma analyzeTemplate_score_bounds:
  "0 \<le> m_score (analyzeTemplate now nm rj) \<and> m_score (analyzeTemplate now nm rj) \<le> 100"
  using analyzeTemplate_cases [of now nm rj]
proof (elim disjE exE conjE)
  fix e assume "analyzeTemplate now nm rj = error_metrics now nm e"
  then show ?thesis by (simp add: error_metrics_score)
next
  fix t d u
  assume d: "analyzeDocumentation t = Inr d" and u: "analyzeUsability t = Inr u"
    and m: "analyzeTemplate now nm rj = full_metrics now nm
        \<lparr> completeness = analyzeCompleteness t, documentation = d,
          bestPractices = analyzeBestPractices t, usability = u \<rparr>"
  show ?thesis
    using completeness_score_bounds [of t] documentation_score_bounds [OF d]
      bestPractices_score_bounds [of t] usability_score_bounds [OF u]
    by (simp add: m full_metrics_score)
qed

lemma analyzeTemplate_grade:
  "m_grade (analyzeTemplate now nm rj) = calculateGrade (m_score (analyzeTemplate now nm rj))"
  using analyzeTemplate_cases [of now nm rj]
  by (auto simp: error_metrics_score full_metrics_score calculateGrade_def)

lemma calculateGrade_bands:
  "(calculateGrade s = ''A+'') = (90 \<le> s)"
  "(calculateGrade s = ''A'') = (85 \<le> s \<and> s < 90)"
  "(calculateGrade s = ''A-'') = (80 \<le> s \<and> s < 85)"
  "(calculateGrade s = ''B+'') = (75 \<le> s \<and> s < 80)"
  "(calculateGrade s = ''B'') = (70 \<le> s \<and> s < 75)"
  "(calculateGrade s = ''B-'') = (65 \<le> s \<and> s < 70)"
  "(calculateGrade s = ''C+'') = (60 \<le> s \<and> s < 65)"
  "(calculateGrade s = ''C'') = (55 \<le> s \<and> s < 60)"
  "(calculateGrade s = ''C-'') = (50 \<le> s \<and> s < 55)"
  "(calculateGrade s = ''D'') = (40 \<le> s \<and> s < 50)"
  "(calculateGrade s = ''F'') = (s < 40)"
  by (simp_all add: calculateGrade_def)

lemma calculateGrade_mono:
  "s \<le> s' \<Longrightarrow> grade_rank (calculateGrade s) \<le> grade_rank (calculateGrade s')"
  by (simp add: calculateGrade_def grade_rank_def grades_def)

text \<open>
  C3. For every outcome of reading a descriptor, the score \<open>analyzeTemplate\<close> returns is
  an integer between 0 and 100, and the grade it returns is \<open>calculateGrade\<close> of that
  score, which is the band table: A+ from 90, A from 85, A- from 80, B+ from 75, B from
  70, B- from 65, C+ from 60, C from 55, C- from 50, D from 40, F below (so 40 gives D
  and 39 gives F); a higher score never gets a lower grade.
\<close>

theorem analyzeTemplate_score_range_and_grade:
  "0 \<le> m_score (analyzeTemplate now nm rj) \<and> m_score (analyzeTemplate now nm rj) \<le> 100
   \<and> m_grade (analyzeTemplate now nm rj) = calculateGrade (m_score (analyzeTemplate now nm rj))
   \<and> (calculateGrade s = ''A+'') = (90 \<le> s)
   \<and> (calculateGrade s = ''A'') = (85 \<le> s \<and> s < 90)
   \<and> (calculateGrade s = ''A-'') = (80 \<le> s \<and> s < 85)
   \<and> (calculateGrade s = ''B+'') = (75 \<le> s \<and> s < 80)
   \<and> (calculateGrade s = ''B'') = (70 \<le> s \<and> s < 75)
   \<and> (calculateGrade s = ''B-'') = (65 \<le> s \<and> s < 70)
   \<and> (calculateGrade s = ''C+'') = (60 \<le> s \<and> s < 65)
   \<and> (calculateGrade s = ''C'') = (55 \<le> s \<and> s < 60)
   \<and> (calculateGrade s = ''C-'') = (50 \<le> s \<and> s < 55)
   \<and> (calculateGrade s = ''D'') = (40 \<le> s \<and> s < 50)
   \<and> (calculateGrade s = ''F'') = (s < 40)
   \<and> calculateGrade 40 = ''D'' \<and> calculateGrade 39 = ''F''
   \<and> (s \<le> s' \<longrightarrow> grade_rank (calculateGrade s) \<le> grade_rank (calculateGrade s'))"
  using analyzeTemplate_score_bounds [of now nm rj] analyzeTemplate_grade [of now nm rj]
    calculateGrade_bands [of s] calculateGrade_bands(10) [of 40] calculateGrade_bands(11) [of 39]
    calculateGrade_mono [of s s']
  by simp

theorem analyzeTemplate_score_range_and_grade_witness:
  "(39::int) \<le> 40
   \<and> grade_rank (calculateGrade 39) \<le> grade_rank (calculateGrade 40)
   \<and> 0 \<le> m_score (analyzeTemplate ''2024-05-01'' ''react-typescript-vite''
                      (Inr react_typescript_vite))
   \<and> m_score (analyzeTemplate ''2024-05-01'' ''react-typescript-vite''
                  (Inr react_typescript_vite)) \<le> 100"
proof -
  note t = analyzeTemplate_score_range_and_grade
    [of "''2024-05-01''" "''react-typescript-vite''" "Inr react_typescript_vite" 39 40]
  have le: "(39::int) \<le> 40" by simp
  from t have "(39::int) \<le> 40 \<longrightarrow> grade_rank (calculateGrade 39) \<le> grade_rank (calculateGrade 40)"
    by (elim conjE)
  then have mono: "grade_rank (calculateGrade 39) \<le> grade_rank (calculateGrade 40)"
    using le by (rule mp)
  from t have lo: "0 \<le> m_score (analyzeTemplate ''2024-05-01'' ''react-typescript-vite''
                      (Inr react_typescript_vite))"
    by (elim conjE)
  from t have hi: "m_score (analyzeTemplate ''2024-05-01'' ''react-typescript-vite''
                  (Inr react_typescript_vite)) \<le> 100"
    by (elim conjE)
  from le mono lo hi show ?thesis by (intro conjI)
qed

subsection \<open>The completeness dimension\<close>

lemma analysis_simps [simp]:
  "issues (add_score n a) = issues a"
  "recommendations (add_score n a) = recommendations a"
  "issues (push_issue s a) = issues a @ [s]"
  "recommendations (push_issue s a) = recommendations a"
  "issues (push_recommendation s a) = issues a"
  "recommendations (push_recommendation s a) = recommendations a @ [s]"
  "issues (new_analysis mx) = []"
  "recommendations (new_analysis mx) = []"
  by (simp_all add: add_score_def push_issue_def push_recommendation_def new_analysis_def)

lemma missingFields_length:
  "int (length (missingFields t)) =
     of_bool (\<not> truthy_str (name t)) + of_bool (\<not> truthy_str (description t))
     + of_bool (\<not> truthy_str (version t)) + of_bool (rules t = None)
     + of_bool (files t = None)"
  by (simp add: missingFields_def requiredFields_def has_field_def truthy_obj_def)

lemma completeness_fields_score:
  "score (completeness_fields t a) = score a + max 0 (15 - 3 * int (length (missingFields t)))"
  by (simp add: completeness_fields_def mult.commute)

lemma completeness_files_score:
  "score (completeness_files t a) = score a +
     (case files t of
        None \<Rightarrow> 0
      | Some fs \<Rightarrow> if fs = [] then 0
                  else if (\<exists>f\<in>set fs. path f = Some ''.cursorrules'') then 10 else 5)"
  by (simp add: completeness_files_def truthy_obj_def list_ex_iff is_cursorrules_def
      split: option.split)

lemma completeness_commands_score:
  "score (completeness_commands t a) = score a +
     (case commands t of
        None \<Rightarrow> 0
      | Some cmds \<Rightarrow>
          if truthy_str (cmds ''install'') \<and> truthy_str (cmds ''dev'') then 5
          else if truthy_str (cmds ''install'') \<or> truthy_str (cmds ''dev'') then 3 else 0)"
  by (simp add: completeness_commands_def Let_def only_if_def split: option.split)

lemma completeness_recommendations:
  "recommendations (analyzeCompleteness t) =
     (case commands t of
        None \<Rightarrow> []
      | Some cmds \<Rightarrow>
          (if truthy_str (cmds ''install'') then [] else [''Add install command'']) @
          (if truthy_str (cmds ''dev'') then [] else [''Add dev command'']))"
  by (simp add: analyzeCompleteness_def completeness_commands_def completeness_files_def
      completeness_fields_def Let_def only_if_def split: option.split)

lemma completeness_issues:
  "issues (analyzeCompleteness t) =
     (if length (missingFields t) = 0 then []
      else [''Missing required fields: '' @ join '', '' (missingFields t)]) @
     (case files t of
        None \<Rightarrow> [''No template files defined'']
      | Some fs \<Rightarrow> if fs = [] then [''No template files defined'']
                  else if (\<exists>f\<in>set fs. path f = Some ''.cursorrules'') then []
                  else [''Missing .cursorrules file'']) @
     (case commands t of None \<Rightarrow> [''No commands defined''] | Some cmds \<Rightarrow> [])"
  by (simp add: analyzeCompleteness_def completeness_commands_def completeness_files_def
      completeness_fields_def Let_def only_if_def truthy_obj_def list_ex_iff is_cursorrules_def
      split: option.split)

text \<open>
  C4, as the claim states its last clause, fails: a template without a \<open>commands\<close> object
  lacks both \<open>install\<close> and \<open>dev\<close>, and no recommendation is emitted for either; the
  analyser notes the issue \<open>No commands defined\<close> instead.
\<close>

theorem analyzeCompleteness_no_commands_counterexample:
  "commands bare_template = None
   \<and> recommendations (analyzeCompleteness bare_template) = []
   \<and> ''No commands defined'' \<in> set (issues (analyzeCompleteness bare_template))"
  by (simp add: completeness_recommendations completeness_issues bare_template_def)

text \<open>
  C4, amended. The completeness score is \<open>max(0, 15 - 3m)\<close>, with \<open>m\<close> the number of
  falsy fields among name, description, version, rules and files; plus, when \<open>files\<close> is
  present and non-empty, 10 if an entry has the path \<open>.cursorrules\<close> and 5 with the issue
  \<open>Missing .cursorrules file\<close> otherwise, and 0 with the issue \<open>No template files defined\<close>
  when \<open>files\<close> is absent or empty; plus 5 when \<open>commands.install\<close> and \<open>commands.dev\<close> are
  both truthy, 3 when exactly one is, 0 otherwise. When the \<open>commands\<close> object is present,
  one recommendation is emitted for each of the two commands that is absent; when it is
  absent, no recommendation is emitted and the issue \<open>No commands defined\<close> is noted.
\<close>

theorem analyzeCompleteness_points:
  "score (analyzeCompleteness t) =
     max 0 (15 - 3 * (of_bool (\<not> truthy_str (name t)) + of_bool (\<not> truthy_str (description t))
                      + of_bool (\<not> truthy_str (version t)) + of_bool (rules t = None)
                      + of_bool (files t = None)))
     + (case files t of
          None \<Rightarrow> 0
        | Some fs \<Rightarrow> if fs = [] then 0
                    else if (\<exists>f\<in>set fs. path f = Some ''.cursorrules'') then 10 else 5)
     + (case commands t of
          None \<Rightarrow> 0
        | Some cmds \<Rightarrow>
            if truthy_str (cmds ''install'') \<and> truthy_str (cmds ''dev'') then 5
            else if truthy_str (cmds ''install'') \<or> truthy_str (cmds ''dev'') then 3 else 0)
   \<and> recommendations (analyzeCompleteness t) =
       (case commands t of
          None \<Rightarrow> []
        | Some cmds \<Rightarrow>
            (if truthy_str (cmds ''install'') then [] else [''Add install command'']) @
            (if truthy_str (cmds ''dev'') then [] else [''Add dev command'']))
   \<and> (''Missing .cursorrules file'' \<in> set (issues (analyzeCompleteness t))
        \<longleftrightarrow> (\<exists>fs. files t = Some fs \<and> fs \<noteq> [] \<and> \<not> (\<exists>f\<in>set fs. path f = Some ''.cursorrules'')))
   \<and> (''No template files defined'' \<in> set (issues (analyzeCompleteness t))
        \<longleftrightarrow> files t = None \<or> files t = Some [])
   \<and> (''No commands defined'' \<in> set (issues (analyzeCompleteness t))
        \<longleftrightarrow> commands t = None)"
proof -
  have s: "score (analyzeCompleteness t) =
      max 0 (15 - 3 * int (length (missingFields t)))
      + (case files t of
          None \<Rightarrow> 0
        | Some fs \<Rightarrow> if fs = [] then 0
                    else if (\<exists>f\<in>set fs. path f = Some ''.cursorrules'') then 10 else 5)
      + (case commands t of
          None \<Rightarrow> 0
        | Some cmds \<Rightarrow>
            if truthy_str (cmds ''install'') \<and> truthy_str (cmds ''dev'') then 5
            else if truthy_str (cmds ''install'') \<or> truthy_str (cmds ''dev'') then 3 else 0)"
    unfolding analyzeCompleteness_def
    by (simp only: completeness_commands_score completeness_files_score
        completeness_fields_score score_simps)
  have i1: "''Missing .cursorrules file'' \<in> set (issues (analyzeCompleteness t))
        \<longleftrightarrow> (\<exists>fs. files t = Some fs \<and> fs \<noteq> [] \<and> \<not> (\<exists>f\<in>set fs. path f = Some ''.cursorrules''))"
    by (auto simp: completeness_issues split: option.split)
  have i2: "''No template files defined'' \<in> set (issues (analyzeCompleteness t))
        \<longleftrightarrow> files t = None \<or> files t = Some []"
    by (auto simp: completeness_issues split: option.split)
  have i3: "''No commands defined'' \<in> set (issues (analyzeCompleteness t))
        \<longleftrightarrow> commands t = None"
    by (auto simp: completeness_issues split: option.split)
  show ?thesis
    using s i1 i2 i3 completeness_recommendations [of t] missingFields_length [of t]
    by simp
qed

theorem analyzeCompleteness_points_witness:
  "score (analyzeCompleteness react_typescript_vite) = 30
   \<and> recommendations (analyzeCompleteness react_typescript_vite) = []
   \<and> (\<exists>f\<in>set (the (files react_typescript_vite)). path f = Some ''.cursorrules'')
   \<and> ''Missing .cursorrules file'' \<notin> set (issues (analyzeCompleteness react_typescript_vite))"
  using analyzeCompleteness_points [of react_typescript_vite]
  by (simp add: react_typescript_vite_def truthy_str_def)

subsection \<open>The validator\<close>

lemma validation_simps [simp]:
  "errors (push_error e v) = errors v @ [e]"
  "warnings (push_error e v) = warnings v"
  "errors (push_warning w v) = errors v"
  "warnings (push_warning w v) = warnings v @ [w]"
  "errors (only_if b (push_warning w) v) = errors v"
  "errors (only_if b (push_error e) v) = errors v @ (if b then [e] else [])"
  by (simp_all add: push_error_def push_warning_def only_if_def)

lemma validate_required_errors:
  "errors (validate_required t fs v)
     = errors v @ map MissingRequiredField (filter (\<lambda>f. \<not> has_field t f) fs)"
  by (induction fs arbitrary: v) simp_all

lemma validate_version_errors:
  "errors (validate_version t v)
     = errors v @ (if truthy_str (version t) \<and> \<not> semver_test (the (version t))
                   then [InvalidVersionFormat] else [])"
  by (simp add: validate_version_def)

lemma validate_rules_errors [simp]: "errors (validate_rules t v) = errors v"
  by (simp add: validate_rules_def Let_def split: option.split)

lemma validate_tags_errors [simp]: "errors (validate_tags t v) = errors v"
  by (simp add: validate_tags_def)

lemma validate_commands_errors [simp]: "errors (validate_commands t v) = errors v"
  by (simp add: validate_commands_def split: option.split)

text \<open>An entry on which the loop throws: the path is \<open>.cursorrules\<close> and there is no content.\<close>

lemma validate_file_entries_throws:
  "(\<exists>e. validate_file_entries fs v = Inl e)
     \<longleftrightarrow> (\<exists>f\<in>set fs. path f = Some ''.cursorrules'' \<and> content f = None)"
  by (induction fs arbitrary: v) (auto simp: Let_def split: option.splits)

lemma validate_file_entries_errors:
  "validate_file_entries fs v = Inr v' \<Longrightarrow>
   errors v' = errors v @
     map InvalidFileEntry (filter (\<lambda>f. \<not> truthy_str (path f) \<or> \<not> truthy_str (content f)) fs)"
proof (induction fs arbitrary: v)
  case Nil
  then show ?case by simp
next
  case (Cons f fs)
  then show ?case
    by (auto simp: Let_def split: option.splits if_splits)
qed

text \<open>
  When no entry makes the loop throw, the validator returns all its findings: one error
  for each missing required field, the version error exactly for a non-empty version that
  does not match the pattern, and one error for each entry whose path or content is
  missing or empty.
\<close>

lemma validateTemplate_errors:
  assumes "\<not> (\<exists>f\<in>set (case files t of None \<Rightarrow> [] | Some fs \<Rightarrow> fs).
                path f = Some ''.cursorrules'' \<and> content f = None)"
  shows "errors (validateTemplate (Inr t)) =
     map MissingRequiredField
       (filter (\<lambda>f. \<not> has_field t f) [''name'', ''description'', ''version'', ''rules'']) @
     (if truthy_str (version t) \<and> \<not> semver_test (the (version t))
      then [InvalidVersionFormat] else []) @
     map InvalidFileEntry
       (filter (\<lambda>f. \<not> truthy_str (path f) \<or> \<not> truthy_str (content f))
          (case files t of None \<Rightarrow> [] | Some fs \<Rightarrow> fs))"
proof (cases "files t")
  case None
  then show ?thesis
    by (simp add: validateTemplate_def validate_files_def validate_required_errors
        validate_version_errors)
next
  case (Some fs)
  define v0 where "v0 = validate_tags t (validate_rules t (validate_version t
      (validate_required t [''name'', ''description'', ''version'', ''rules'']
         \<lparr> errors = [], warnings = [], v_template = Some t \<rparr>)))"
  from assms Some have "\<not> (\<exists>e. validate_file_entries fs v0 = Inl e)"
    by (simp add: validate_file_entries_throws)
  then obtain v' where v': "validate_file_entries fs v0 = Inr v'"
    by (cases "validate_file_entries fs v0") auto
  have e0: "errors v0 = map MissingRequiredField
       (filter (\<lambda>f. \<not> has_field t f) [''name'', ''description'', ''version'', ''rules'']) @
     (if truthy_str (version t) \<and> \<not> semver_test (the (version t))
      then [InvalidVersionFormat] else [])"
    unfolding v0_def
    by (simp only: validate_tags_errors validate_rules_errors validate_version_errors
        validate_required_errors) simp
  have "validateTemplate (Inr t) = validate_commands t v'"
    using v' by (simp add: validateTemplate_def validate_files_def Some v0_def)
  then show ?thesis
    using validate_file_entries_errors [OF v'] e0 Some by simp
qed

lemma validateTemplate_version_error:
  assumes "\<not> (\<exists>f\<in>set (case files t of None \<Rightarrow> [] | Some fs \<Rightarrow> fs).
                path f = Some ''.cursorrules'' \<and> content f = None)"
    and "version t = Some v" and "v \<noteq> []"
  shows "InvalidVersionFormat \<in> set (errors (validateTemplate (Inr t))) \<longleftrightarrow> \<not> semver_test v"
  using assms(2,3) by (auto simp: validateTemplate_errors [OF assms(1)] truthy_str_def)

lemma semver_test_examples:
  "\<not> semver_test ''1.0''" "\<not> semver_test ''1.0.0-beta''" "semver_test ''1.0.0''"
  by (simp_all add: semver_test_def digits1_def dot_def is_digit_def)

text \<open>
  C2. The claim holds of every template on which the loop over the file entries does not
  throw (lemma \<open>validateTemplate_version_error\<close>; a version that is the empty string counts
  as a missing field, not as a version). It fails on a template with the version \<open>1.0\<close>
  and a \<open>.cursorrules\<close> entry without content: the version error, already pushed, is
  dropped by the \<open>catch\<close>, and the list returned holds the parse failure alone.
\<close>

theorem validateTemplate_loses_version_error:
  "version short_version_template = Some ''1.0''
   \<and> \<not> semver_test ''1.0''
   \<and> errors (validateTemplate (Inr short_version_template))
       = [FailedToParse ''Cannot read properties of undefined (reading length)'']
   \<and> InvalidVersionFormat \<notin> set (errors (validateTemplate (Inr short_version_template)))"
  by (simp add: short_version_template_def bare_template_def validateTemplate_def
      validate_files_def failed_to_parse_def semver_test_examples)

text \<open>
  C5. On a template whose second entry is \<open>.cursorrules\<close> without content, and whose
  first entry has no path and whose description is missing, the validator returns one
  error, the parse failure, and no warning: the error for the entry itself, the error for
  the first entry and the one for the description are all dropped.
\<close>

theorem validateTemplate_discards_findings:
  "validateTemplate (Inr cursorrules_without_content)
     = \<lparr> errors = [FailedToParse ''Cannot read properties of undefined (reading length)''],
         warnings = [], v_template = None \<rparr>
   \<and> InvalidFileEntry \<lparr> path = Some ''.cursorrules'', content = None \<rparr>
       \<notin> set (errors (validateTemplate (Inr cursorrules_without_content)))
   \<and> InvalidFileEntry \<lparr> path = None, content = Some ''export {}'' \<rparr>
       \<notin> set (errors (validateTemplate (Inr cursorrules_without_content)))
   \<and> MissingRequiredField ''description''
       \<notin> set (errors (validateTemplate (Inr cursorrules_without_content)))"
  by (simp add: cursorrules_without_content_def bare_template_def validateTemplate_def
      validate_files_def failed_to_parse_def Let_def only_if_def)

subsection \<open>Ratings\<close>

lemma js_simps [simp]:
  "js_add (Num a) (Num b) = Num (a + b)"
  "js_mul (Num a) (Num b) = Num (a * b)"
  "js_div (Num a) (Num b) = Num (a / b)"
  by (simp_all add: js_add_def js_mul_def js_div_def)

lemma rate_record_simps [simp]:
  "votes (rate_record now r c x) = Suc (votes x)"
  "reviews (rate_record now r c x) =
     (if truthy_str c
      then reviews x @ [\<lparr> user = ''anonymous'', review_rating = toJSON r, comment = the c,
                           date = now \<rparr>]
      else reviews x)"
  by (simp_all add: rate_record_def Let_def)















subsection \<open>The rate command\<close>

text \<open>Whatever the command reports other than success, it leaves the ratings file alone.\<close>

lemma rate_unchanged_unless_rated:
  "fst (rate now store rf nm ratingNum c) \<noteq> Rated \<Longrightarrow> snd (rate now store rf nm ratingNum c) = rf"
  by (auto simp: rate_def split: sum.splits option.splits prod.splits if_splits)

lemma rate_rejects_integer_out_of_range:
  "k < 1 \<or> 5 < k \<Longrightarrow> rate now store rf nm (Num (of_int k)) c = (RatingRejected, rf)"
  by (auto simp: rate_def)

lemma rate_rejects_unknown_template:
  "getTemplates store = Inr (loaded, warned) \<Longrightarrow> \<not> (\<exists>t\<in>set loaded. name t = Some nm) \<Longrightarrow>
   rate now store rf nm ratingNum c \<in> {(RatingRejected, rf), (TemplateNotFound, rf)}"
proof -
  assume g: "getTemplates store = Inr (loaded, warned)"
    and n: "\<not> (\<exists>t\<in>set loaded. name t = Some nm)"
  from n have "find (\<lambda>t. name t = Some nm) loaded = None"
    by (simp add: find_None_iff)
  with g show ?thesis by (simp add: rate_def)
qed

text \<open>
  C6. A rating argument that does not start with an integer, such as \<open>abc\<close>, is outside
  the range, and \<open>parseInt\<close> makes it \<open>NaN\<close>. Both comparisons of the guard are false on
  \<open>NaN\<close>, so the submission is not rejected: for an existing template the command reports
  success and \<open>addRating\<close> writes a record with one vote and the rating \<open>null\<close>. (An
  integer outside [1,5] and an unknown template name are rejected with the file unchanged:
  lemmas \<open>rate_rejects_integer_out_of_range\<close>, \<open>rate_rejects_unknown_template\<close>.)
\<close>

theorem rate_accepts_NaN:
  "fst (rate ''2024-05-01'' (Inr [(''react-typescript-vite'', Parsed react_typescript_vite)])
          Missing ''react-typescript-vite'' NaN None) = Rated
   \<and> snd (rate ''2024-05-01'' (Inr [(''react-typescript-vite'', Parsed react_typescript_vite)])
          Missing ''react-typescript-vite'' NaN None) \<noteq> Missing
   \<and> templates (getRatings (snd (rate ''2024-05-01''
          (Inr [(''react-typescript-vite'', Parsed react_typescript_vite)])
          Missing ''react-typescript-vite'' NaN None))) ''react-typescript-vite''
       = Some \<lparr> rating = JNull, votes = 1, reviews = [] \<rparr>"
  by (simp add: rate_def getTemplates_def pathExists_def react_typescript_vite_def
      addRating_def rate_record_def new_record_def default_ratings_def Let_def
      js_add_def js_mul_def js_div_def truthy_str_def)

subsection \<open>The template store\<close>

lemma load_templates_acc:
  "load_templates dirs (ts, ws) =
     (ts @ List.map_filter (\<lambda>(dir, d). case d of Parsed t \<Rightarrow> Some t | _ \<Rightarrow> None) dirs,
      ws @ List.map_filter
             (\<lambda>(dir, d). case d of
                 Unparsable m \<Rightarrow> Some (could_not_load dir)
               | _ \<Rightarrow> None) dirs)"
proof (induction dirs arbitrary: ts ws)
  case Nil
  then show ?case by (simp add: List.map_filter_simps)
next
  case (Cons e dirs)
  obtain dir d where e: "e = (dir, d)" by (cases e)
  show ?case
    by (cases d) (simp_all add: e Cons.IH pathExists_def List.map_filter_simps)
qed

text \<open>
  C7. For every listing of the templates directory, \<open>getTemplates\<close> returns (it does not
  fail), and what it returns is one template for each entry whose descriptor exists and
  parses, in the order of the listing, with one warning for each entry whose descriptor
  exists and does not parse. A corrupt entry, wherever it stands in the listing, changes
  nothing in the templates returned for the others.
\<close>

theorem getTemplates_skips_corrupt:
  "getTemplates (Inr dirs) =
     Inr (List.map_filter (\<lambda>(dir, d). case d of Parsed t \<Rightarrow> Some t | _ \<Rightarrow> None) dirs,
          List.map_filter
            (\<lambda>(dir, d). case d of
                Unparsable m \<Rightarrow> Some (could_not_load dir)
              | _ \<Rightarrow> None) dirs)
   \<and> map_sum id fst (getTemplates (Inr (before @ [(dir, Unparsable m)] @ after)))
       = map_sum id fst (getTemplates (Inr (before @ after)))"
  by (simp add: getTemplates_def load_templates_acc List.map_filter_def)

subsection \<open>Search\<close>







lemma toLowerCase_lower [simp]:
  "toLowerCase ''frontend'' = ''frontend''"
  "toLowerCase ''vite'' = ''vite''"
  "toLowerCase ''react'' = ''react''"
  "toLowerCase ''reactjs'' = ''reactjs''"
  "toLowerCase ''vue'' = ''vue''"
  "toLowerCase ''typescript'' = ''typescript''"
  by (simp_all add: toLowerCase_def lower_char_def upper_letters_def lower_letters_def)




subsection \<open>The update command\<close>



text \<open>The loop touches the targets and their backup names only.\<close>

lemma write_files_frame:
  "\<forall>f\<in>set fs. \<forall>p. path f = Some p \<longrightarrow> x \<noteq> p \<and> (\<forall>j. x \<noteq> p @ ''.backup.'' @ stamp j) \<Longrightarrow>
   snd (write_files stamp i fs d) x = d x"
proof (induction fs arbitrary: i d)
  case Nil
  then show ?case by simp
next
  case (Cons f fs)
  show ?case
  proof (cases "path f")
    case None
    then show ?thesis by simp
  next
    case (Some p)
    with Cons.prems have x: "x \<noteq> p" "x \<noteq> p @ ''.backup.'' @ stamp i" by auto
    from Cons.prems have rest: "\<forall>f\<in>set fs. \<forall>p. path f = Some p \<longrightarrow>
        x \<noteq> p \<and> (\<forall>j. x \<noteq> p @ ''.backup.'' @ stamp j)" by simp
    show ?thesis
      using x Cons.IH [OF rest] Some
      by (auto simp: Let_def split: option.splits)
  qed
qed

text \<open>
  One round of the loop on an existing target: the old content is under the backup name,
  the new content under the target.
\<close>

lemma write_files_single:
  "d p = Some old \<Longrightarrow>
   write_files stamp i [\<lparr> path = Some p, content = Some c \<rparr>] d
     = (None, d(p @ ''.backup.'' @ stamp i \<mapsto> old, p \<mapsto> c))"
  by (simp add: Let_def)

text \<open>
  What the loop leaves on the disk, when the targets are distinct and no backup name is a
  target or the backup name of another target: every target holds the content of its
  entry, and every target that existed before has its old content under its backup name.
\<close>

lemma write_files_effect:
  assumes "\<forall>f\<in>set fs. path f \<noteq> None \<and> content f \<noteq> None"
    and "distinct (map path fs)"
    and "\<forall>f\<in>set fs. \<forall>g\<in>set fs. \<forall>j. the (path f) \<noteq> the (path g) @ ''.backup.'' @ stamp j"
    and "\<forall>f\<in>set fs. \<forall>g\<in>set fs. \<forall>j k. path f \<noteq> path g \<longrightarrow>
           the (path f) @ ''.backup.'' @ stamp j \<noteq> the (path g) @ ''.backup.'' @ stamp k"
  shows "(\<forall>f\<in>set fs. snd (write_files stamp i fs d) (the (path f)) = content f)
       \<and> (\<forall>k<length fs. \<forall>old. d (the (path (fs ! k))) = Some old \<longrightarrow>
            snd (write_files stamp i fs d) (the (path (fs ! k)) @ ''.backup.'' @ stamp (i + k))
              = Some old)"
  using assms
proof (induction fs arbitrary: i d)
  case Nil
  then show ?case by simp
next
  case (Cons f fs)
  from Cons.prems(1) obtain p c where p: "path f = Some p" and c: "content f = Some c"
    by auto
  define d1 where "d1 = (case d p of None \<Rightarrow> d | Some old \<Rightarrow> d(p @ ''.backup.'' @ stamp i \<mapsto> old))"
  define d2 where "d2 = d1(p \<mapsto> c)"
  have step: "write_files stamp i (f # fs) d = write_files stamp (Suc i) fs d2"
    by (simp add: p c d1_def d2_def Let_def)
  have wf: "\<forall>g\<in>set fs. path g \<noteq> None \<and> content g \<noteq> None"
    using Cons.prems(1) by simp
  have dist: "distinct (map path fs)" and notin: "path f \<notin> set (map path fs)"
    using Cons.prems(2) by simp_all
  have nb: "\<forall>g\<in>set fs. \<forall>h\<in>set fs. \<forall>j. the (path g) \<noteq> the (path h) @ ''.backup.'' @ stamp j"
    using Cons.prems(3) by simp
  have bb: "\<forall>g\<in>set fs. \<forall>h\<in>set fs. \<forall>j k. path g \<noteq> path h \<longrightarrow>
           the (path g) @ ''.backup.'' @ stamp j \<noteq> the (path h) @ ''.backup.'' @ stamp k"
    using Cons.prems(4) by simp
  note IH = Cons.IH [OF wf dist nb bb, of "Suc i" d2]
  \<comment> \<open>the rest of the loop touches neither the first target nor its backup name\<close>
  have p_frame: "snd (write_files stamp (Suc i) fs d2) p = d2 p"
  proof (rule write_files_frame, intro ballI allI impI)
    fix g q assume g: "g \<in> set fs" and q: "path g = Some q"
    from notin g p q have "p \<noteq> q" by force
    moreover from Cons.prems(3) g q p have "\<forall>j. p \<noteq> q @ ''.backup.'' @ stamp j"
      by (metis list.set_intros(1) list.set_intros(2) option.sel)
    ultimately show "p \<noteq> q \<and> (\<forall>j. p \<noteq> q @ ''.backup.'' @ stamp j)" by simp
  qed
  have b_frame: "snd (write_files stamp (Suc i) fs d2) (p @ ''.backup.'' @ stamp i)
      = d2 (p @ ''.backup.'' @ stamp i)"
  proof (rule write_files_frame, intro ballI allI impI)
    fix g q assume g: "g \<in> set fs" and q: "path g = Some q"
    from notin g p q have ne: "path f \<noteq> path g" by force
    from Cons.prems(3) g q p have "p @ ''.backup.'' @ stamp i \<noteq> q"
      by (metis list.set_intros(1) list.set_intros(2) option.sel)
    moreover from Cons.prems(4) g ne p q
    have "\<forall>j. p @ ''.backup.'' @ stamp i \<noteq> q @ ''.backup.'' @ stamp j"
      by (metis list.set_intros(1) list.set_intros(2) option.sel)
    ultimately show "p @ ''.backup.'' @ stamp i \<noteq> q
        \<and> (\<forall>j. p @ ''.backup.'' @ stamp i \<noteq> q @ ''.backup.'' @ stamp j)" by simp
  qed
  have d2p: "d2 p = Some c" by (simp add: d2_def)
  have targets: "\<forall>g\<in>set (f # fs). snd (write_files stamp i (f # fs) d) (the (path g)) = content g"
    unfolding step using IH p_frame d2p p c by simp
  have backups: "\<forall>k<length (f # fs). \<forall>old. d (the (path ((f # fs) ! k))) = Some old \<longrightarrow>
            snd (write_files stamp i (f # fs) d)
              (the (path ((f # fs) ! k)) @ ''.backup.'' @ stamp (i + k)) = Some old"
  proof (intro allI impI)
    fix k old
    assume k: "k < length (f # fs)" and old: "d (the (path ((f # fs) ! k))) = Some old"
    show "snd (write_files stamp i (f # fs) d)
              (the (path ((f # fs) ! k)) @ ''.backup.'' @ stamp (i + k)) = Some old"
    proof (cases k)
      case 0
      with old p have "d p = Some old" by simp
      then have "d2 (p @ ''.backup.'' @ stamp i) = Some old"
        by (simp add: d2_def d1_def)
      with b_frame show ?thesis unfolding step by (simp add: 0 p)
    next
      case (Suc k')
      with k have k': "k' < length fs" by simp
      let ?g = "fs ! k'"
      from k' have g: "?g \<in> set fs" by simp
      with wf obtain q where q: "path ?g = Some q" by auto
      from notin g p q have "q \<noteq> p" by force
      moreover from Cons.prems(3) g q p have "q \<noteq> p @ ''.backup.'' @ stamp i"
        by (metis list.set_intros(1) list.set_intros(2) option.sel)
      ultimately have "d2 q = d q"
        by (simp add: d2_def d1_def split: option.split)
      with old Suc q have "d2 (the (path ?g)) = Some old" by simp
      with IH k' have "snd (write_files stamp (Suc i) fs d2)
          (the (path ?g) @ ''.backup.'' @ stamp (Suc i + k')) = Some old"
        by blast
      then show ?thesis unfolding step by (simp add: Suc)
    qed
  qed
  from targets backups show ?case by blast
qed





subsection \<open>Analysing the whole store\<close>

text \<open>
  On a descriptor that cannot be read or parsed \<open>analyzeTemplate\<close> does not throw: it
  returns the record of its \<open>catch\<close> branch, with score 0, grade F and the message.
\<close>

lemma analyzeTemplate_unreadable:
  "analyzeTemplate now nm (Inl e)
     = \<lparr> m_name = nm, m_score = 0, m_grade = ''F'', m_issues = None,
         m_recommendations = None, m_analysis = None, m_error = Some (message e),
         m_timestamp = now \<rparr>"
  by (simp add: analyzeTemplate_def error_metrics_def)

lemma analyze_dirs_unreadable:
  "analyze_dirs orange now ((dir, Unparsable m) # rest) results = Inl (TypeError ''length'')"
  by (simp add: pathExists_def analyzeTemplate_unreadable getGradeColor_def startsWith_def
      Let_def)

text \<open>
  C10. The first half of the claim holds (lemma \<open>analyzeTemplate_unreadable\<close>). The
  second does not: the record of the \<open>catch\<close> branch has no \<open>issues\<close>, and the loop of
  \<open>analyzeAllTemplates\<close> reads \<open>metrics.issues.length\<close> on every record, so on a store
  with an unreadable descriptor the analysis of the whole store throws instead of
  completing.
\<close>

theorem analyzeAllTemplates_throws_on_unreadable:
  "m_issues (analyzeTemplate now ''broken''
       (readJson (Unparsable ''Unexpected end of JSON input''))) = None
   \<and> analyzeAllTemplates orange now
       (Inr [(''broken'', Unparsable ''Unexpected end of JSON input''),
             (''react-typescript-vite'', Parsed react_typescript_vite)])
     = Inl (TypeError ''length'')"
  by (simp add: analyzeAllTemplates_def analyze_dirs_unreadable analyzeTemplate_unreadable
      del: analyze_dirs.simps)

end
